theory Spec2Isabelle
  imports Complex_Main
begin

section \<open>Numbers and configuration\<close>

text \<open>
  JavaScript numbers are IEEE doubles. They are idealised here as \<^typ>\<open>real\<close>:
  \<open>NaN\<close> and the infinities have no counterpart, so a division by a zero
  \<open>offsetWidth\<close> (which the program would turn into \<open>Infinity\<close> or \<open>NaN\<close>) is outside
  the model; theorems that speak about the value of such a quotient assume a positive
  divisor. \<open>Math.max\<close> and \<open>Math.min\<close> only select one of their arguments, so they are
  \<^const>\<open>max\<close> and \<^const>\<open>min\<close> exactly.
\<close>

text \<open>\<^verbatim>\<open>CONFIG.UI\<close> of \<^verbatim>\<open>src/js/config.js\<close>.\<close>

definition STICKER_BASE_SIZE :: real where
  "STICKER_BASE_SIZE = 220"

definition MIN_SCALE :: real where
  "MIN_SCALE = 0.2"

definition MAX_SCALE :: real where
  "MAX_SCALE = 4.0"

text \<open>
  \<open>Math.atan2\<close> on finite arguments (the sign of a zero is not represented).
\<close>

definition atan2 :: "real \<Rightarrow> real \<Rightarrow> real" where
  "atan2 y x =
     (if 0 < x then arctan (y / x)
      else if x < 0 \<and> 0 \<le> y then arctan (y / x) + pi
      else if x < 0 then arctan (y / x) - pi
      else if 0 < y then pi / 2
      else if y < 0 then - (pi / 2)
      else 0)"

section \<open>Data model\<close>

text \<open>
  An \<open>HTMLImageElement\<close>: its source, its intrinsic size, and whether the element is in
  the broken state, in which \<open>drawImage\<close> throws.
\<close>

record image =
  img_src :: string
  img_width :: real
  img_height :: real
  img_broken :: bool

text \<open>The object literal built by \<open>PhotoboothController.addProp\<close>.\<close>

record propObj =
  prop_id :: string
  prop_name :: string
  prop_src :: string
  prop_img :: image
  prop_x :: real
  prop_y :: real
  prop_scale :: real
  prop_rotation :: real
  prop_width :: real
  prop_height :: real

text \<open>An entry of the overlay or prop grid: \<open>{ name, src }\<close>.\<close>

record asset =
  asset_name :: string
  asset_src :: string

text \<open>The object returned by \<open>GestureHandler.getPointerFromEvent\<close>.\<close>

record pointer =
  ptr_id :: int
  ptr_x :: real
  ptr_y :: real
  ptr_timestamp :: int

text \<open>
  What a handler reads from a \<open>PointerEvent\<close>, together with the value \<open>Date.now()\<close>
  returns while the event is handled.
\<close>

record pointer_event =
  pointerId :: int
  clientX :: real
  clientY :: real
  ev_now :: int

text \<open>
  The two object literals that \<open>lastGesture\<close> can hold, told apart by their \<open>type\<close>
  field: \<open>'translate'\<close> with \<open>x\<close>, \<open>y\<close>, and \<open>'transform'\<close> with \<open>centerX\<close>, \<open>centerY\<close>,
  \<open>distance\<close>, \<open>angle\<close>, \<open>scale\<close>, \<open>rotation\<close>.
\<close>

datatype gesture =
    Translate real real
  | Transform real real real real real real

fun gesture_scale :: "gesture \<Rightarrow> real" where
  "gesture_scale (Transform cx cy d a sc rot) = sc"
| "gesture_scale (Translate x y) = 0"

text \<open>
  The 2D rendering context of the canvas, after the HTML standard: the current
  transformation matrix \<open>(a, b, c, d, e, f)\<close>, which maps \<open>(x, y)\<close> to
  \<open>(a x + c y + e, b x + d y + f)\<close>, the stack of saved matrices, the bitmap size, and
  the images drawn so far in drawing order, each with its destination rectangle and the
  matrix in force when it was drawn.
\<close>

type_synonym matrix = "real \<times> real \<times> real \<times> real \<times> real \<times> real"

record layer =
  ly_img :: image
  ly_x :: real
  ly_y :: real
  ly_w :: real
  ly_h :: real
  ly_ctm :: matrix

record context2d =
  cv_width :: real
  cv_height :: real
  ctm :: matrix
  saved :: "matrix list"
  drawn :: "layer list"

text \<open>The layout box of the canvas element, as the gesture handler reads it.\<close>

record canvas_box =
  offsetWidth :: real
  offsetHeight :: real
  rect_left :: real
  rect_top :: real

datatype error = ImageLoadFailed string | InvalidStateError

text \<open>
  Prop objects are shared between \<open>controller.props\<close> and \<open>controller.selectedProp\<close>
  and mutated in place by the gesture handler, so they live in a store and both fields
  hold references. The record unites the fields of \<open>GestureHandler\<close> (\<open>isActive\<close>,
  \<open>pointers\<close>, \<open>lastGesture\<close>) with those of \<open>PhotoboothController\<close> it works on (\<open>props\<close>,
  \<open>selectedProp\<close>, \<open>currentOverlay\<close>), the canvas, and the entries \<open>Utils.logError\<close> has
  written. The \<open>Map\<close> of pointers is an association list in insertion order. Toasts,
  \<open>preventDefault\<close>, pointer capture and the debounced redraw (whose body draws
  nothing) leave all of these fields alone and are not modelled.
\<close>

type_synonym ref = nat

record state =
  isActive :: bool
  pointers :: "(int \<times> pointer) list"
  lastGesture :: "gesture option"
  props :: "ref list"
  selectedProp :: "ref option"
  currentOverlay :: "asset option"
  heap :: "ref \<Rightarrow> propObj"
  next_ref :: ref
  box :: canvas_box
  ctx :: context2d
  errorLog :: "(string \<times> error) list"

section \<open>The pointer map\<close>

text \<open>\<open>Map.prototype.set\<close>: an existing key keeps its place, a new key goes last.\<close>

fun map_set :: "(int \<times> 'v) list \<Rightarrow> int \<Rightarrow> 'v \<Rightarrow> (int \<times> 'v) list" where
  "map_set [] k v = [(k, v)]"
| "map_set ((k', v') # m) k v =
     (if k' = k then (k, v) # m else (k', v') # map_set m k v)"

definition map_has :: "(int \<times> 'v) list \<Rightarrow> int \<Rightarrow> bool" where
  "map_has m k = (k \<in> set (map fst m))"

definition map_delete :: "(int \<times> 'v) list \<Rightarrow> int \<Rightarrow> (int \<times> 'v) list" where
  "map_delete m k = filter (\<lambda>kv. fst kv \<noteq> k) m"

section \<open>GestureHandler\<close>

definition getPointerFromEvent :: "state \<Rightarrow> pointer_event \<Rightarrow> pointer" where
  "getPointerFromEvent s event =
     \<lparr> ptr_id = pointerId event,
       ptr_x = clientX event - rect_left (box s),
       ptr_y = clientY event - rect_top (box s),
       ptr_timestamp = ev_now event \<rparr>"

text \<open>The containment test in the body of the loop of \<open>findPropAtPosition\<close>.\<close>

definition propContains :: "canvas_box \<Rightarrow> propObj \<Rightarrow> real \<Rightarrow> real \<Rightarrow> bool" where
  "propContains b p x y =
     (let halfWidth = (prop_width p * prop_scale p) / 2 / offsetWidth b;
          halfHeight = (prop_height p * prop_scale p) / 2 / offsetHeight b;
          left = prop_x p - halfWidth;
          right = prop_x p + halfWidth;
          top = prop_y p - halfHeight;
          bottom = prop_y p + halfHeight
      in x \<ge> left \<and> x \<le> right \<and> y \<ge> top \<and> y \<le> bottom)"

text \<open>The loop of \<open>findPropAtPosition\<close>, over the references it has still to visit.\<close>

fun findPropIn :: "canvas_box \<Rightarrow> (ref \<Rightarrow> propObj) \<Rightarrow> ref list \<Rightarrow> real \<Rightarrow> real \<Rightarrow> ref option" where
  "findPropIn b h [] x y = None"
| "findPropIn b h (r # rs) x y =
     (if propContains b (h r) x y then Some r else findPropIn b h rs x y)"

text \<open>The index runs from \<open>props.length - 1\<close> down to \<open>0\<close>: the list is visited reversed.\<close>

definition findPropAtPosition :: "state \<Rightarrow> real \<Rightarrow> real \<Rightarrow> ref option" where
  "findPropAtPosition s x y = findPropIn (box s) (heap s) (rev (props s)) x y"

definition handleSinglePointerDown :: "state \<Rightarrow> pointer \<Rightarrow> state" where
  "handleSinglePointerDown s p =
     (let normalizedX = ptr_x p / offsetWidth (box s);
          normalizedY = ptr_y p / offsetHeight (box s)
      in (case findPropAtPosition s normalizedX normalizedY of
            Some r \<Rightarrow> s\<lparr>selectedProp := Some r\<rparr>
          | None \<Rightarrow> s\<lparr>selectedProp := None\<rparr>))"

definition computeTwoPointerGesture :: "canvas_box \<Rightarrow> pointer \<Rightarrow> pointer \<Rightarrow> gesture" where
  "computeTwoPointerGesture b p1 p2 =
     (let centerX = (ptr_x p1 + ptr_x p2) / 2 / offsetWidth b;
          centerY = (ptr_y p1 + ptr_y p2) / 2 / offsetHeight b;
          dx = ptr_x p2 - ptr_x p1;
          dy = ptr_y p2 - ptr_y p1;
          distance = sqrt (dx * dx + dy * dy);
          angle = atan2 dy dx
      in Transform centerX centerY distance angle (distance / 100) angle)"

definition updateGesture :: "state \<Rightarrow> state" where
  "updateGesture s =
     (case map snd (pointers s) of
        [] \<Rightarrow> s\<lparr>lastGesture := None\<rparr>
      | [p] \<Rightarrow> s\<lparr>lastGesture :=
                  Some (Translate (ptr_x p / offsetWidth (box s)) (ptr_y p / offsetHeight (box s)))\<rparr>
      | [p1, p2] \<Rightarrow> s\<lparr>lastGesture := Some (computeTwoPointerGesture (box s) p1 p2)\<rparr>
      | _ \<Rightarrow> s)"

definition applyGesture :: "state \<Rightarrow> state" where
  "applyGesture s =
     (case lastGesture s of
        None \<Rightarrow> s
      | Some g \<Rightarrow>
          (case selectedProp s of
             None \<Rightarrow> s
           | Some r \<Rightarrow>
               (case g of
                  Translate x y \<Rightarrow>
                    s\<lparr>heap := (heap s)(r := (heap s r)
                        \<lparr>prop_x := max 0 (min 1 x),
                         prop_y := max 0 (min 1 y)\<rparr>)\<rparr>
                | Transform cx cy d a sc rot \<Rightarrow>
                    s\<lparr>heap := (heap s)(r := (heap s r)
                        \<lparr>prop_x := max 0 (min 1 cx),
                         prop_y := max 0 (min 1 cy),
                         prop_scale := max MIN_SCALE (min MAX_SCALE sc),
                         prop_rotation := rot\<rparr>)\<rparr>)))"

definition handlePointerDown :: "state \<Rightarrow> pointer_event \<Rightarrow> state" where
  "handlePointerDown s event =
     (if \<not> isActive s then s
      else
        let p = getPointerFromEvent s event;
            s1 = s\<lparr>pointers := map_set (pointers s) (pointerId event) p\<rparr>;
            s2 = (if length (pointers s1) = 1 then handleSinglePointerDown s1 p else s1)
        in updateGesture s2)"

definition handlePointerMove :: "state \<Rightarrow> pointer_event \<Rightarrow> state" where
  "handlePointerMove s event =
     (if \<not> isActive s \<or> \<not> map_has (pointers s) (pointerId event) then s
      else
        let p = getPointerFromEvent s event;
            s1 = s\<lparr>pointers := map_set (pointers s) (pointerId event) p\<rparr>
        in applyGesture (updateGesture s1))"

definition handlePointerUp :: "state \<Rightarrow> pointer_event \<Rightarrow> state" where
  "handlePointerUp s event =
     (if \<not> isActive s then s
      else
        let s1 = s\<lparr>pointers := map_delete (pointers s) (pointerId event)\<rparr>
        in if length (pointers s1) = 0 then s1\<lparr>lastGesture := None\<rparr>
           else updateGesture s1)"

definition handlePointerCancel :: "state \<Rightarrow> pointer_event \<Rightarrow> state" where
  "handlePointerCancel s event = handlePointerUp s event"

definition getDistance :: "pointer \<Rightarrow> pointer \<Rightarrow> real" where
  "getDistance p1 p2 =
     (let dx = ptr_x p2 - ptr_x p1;
          dy = ptr_y p2 - ptr_y p1
      in sqrt (dx * dx + dy * dy))"

definition isValidGesture :: "gesture option \<Rightarrow> bool" where
  "isValidGesture g =
     (case g of
        None \<Rightarrow> False
      | Some (Translate x y) \<Rightarrow> x \<ge> 0 \<and> x \<le> 1 \<and> y \<ge> 0 \<and> y \<le> 1
      | Some (Transform cx cy d a sc rot) \<Rightarrow> sc \<ge> MIN_SCALE \<and> sc \<le> MAX_SCALE)"

text \<open>The events the canvas delivers, and a run of the handler over a sequence of them.\<close>

datatype pointer_input =
    PointerDown pointer_event
  | PointerMove pointer_event
  | PointerUp pointer_event
  | PointerCancel pointer_event

fun dispatch :: "state \<Rightarrow> pointer_input \<Rightarrow> state" where
  "dispatch s (PointerDown e) = handlePointerDown s e"
| "dispatch s (PointerMove e) = handlePointerMove s e"
| "dispatch s (PointerUp e) = handlePointerUp s e"
| "dispatch s (PointerCancel e) = handlePointerCancel s e"

definition run :: "state \<Rightarrow> pointer_input list \<Rightarrow> state" where
  "run s evs = foldl dispatch s evs"

section \<open>The 2D context\<close>

definition identity :: matrix where
  "identity = (1, 0, 0, 1, 0, 0)"

text \<open>Assigning \<open>canvas.width\<close> or \<open>canvas.height\<close> clears the bitmap and resets the context.\<close>

definition setWidth :: "real \<Rightarrow> context2d \<Rightarrow> context2d" where
  "setWidth w c = c\<lparr>cv_width := w, ctm := identity, saved := [], drawn := []\<rparr>"

definition setHeight :: "real \<Rightarrow> context2d \<Rightarrow> context2d" where
  "setHeight h c = c\<lparr>cv_height := h, ctm := identity, saved := [], drawn := []\<rparr>"

definition ctx_save :: "context2d \<Rightarrow> context2d" where
  "ctx_save c = c\<lparr>saved := ctm c # saved c\<rparr>"

definition ctx_restore :: "context2d \<Rightarrow> context2d" where
  "ctx_restore c = (case saved c of [] \<Rightarrow> c | m # ms \<Rightarrow> c\<lparr>ctm := m, saved := ms\<rparr>)"

fun mat_translate :: "real \<Rightarrow> real \<Rightarrow> matrix \<Rightarrow> matrix" where
  "mat_translate tx ty (a, b, c, d, e, f) =
     (a, b, c, d, a * tx + c * ty + e, b * tx + d * ty + f)"

fun mat_rotate :: "real \<Rightarrow> matrix \<Rightarrow> matrix" where
  "mat_rotate t (a, b, c, d, e, f) =
     (a * cos t + c * sin t, b * cos t + d * sin t,
      c * cos t - a * sin t, d * cos t - b * sin t, e, f)"

fun mat_scale :: "real \<Rightarrow> real \<Rightarrow> matrix \<Rightarrow> matrix" where
  "mat_scale sx sy (a, b, c, d, e, f) = (a * sx, b * sx, c * sy, d * sy, e, f)"

fun mat_apply :: "matrix \<Rightarrow> real \<times> real \<Rightarrow> real \<times> real" where
  "mat_apply (a, b, c, d, e, f) (x, y) = (a * x + c * y + e, b * x + d * y + f)"

definition ctx_translate :: "real \<Rightarrow> real \<Rightarrow> context2d \<Rightarrow> context2d" where
  "ctx_translate tx ty c = c\<lparr>ctm := mat_translate tx ty (ctm c)\<rparr>"

definition ctx_rotate :: "real \<Rightarrow> context2d \<Rightarrow> context2d" where
  "ctx_rotate t c = c\<lparr>ctm := mat_rotate t (ctm c)\<rparr>"

definition ctx_scale :: "real \<Rightarrow> real \<Rightarrow> context2d \<Rightarrow> context2d" where
  "ctx_scale sx sy c = c\<lparr>ctm := mat_scale sx sy (ctm c)\<rparr>"

text \<open>\<open>drawImage(image, dx, dy, dw, dh)\<close>; it throws on an image in the broken state.\<close>

definition ctx_drawImage ::
  "image \<Rightarrow> real \<Rightarrow> real \<Rightarrow> real \<Rightarrow> real \<Rightarrow> context2d \<Rightarrow> error + context2d" where
  "ctx_drawImage img dx dy dw dh c =
     (if img_broken img then Inl InvalidStateError
      else Inr (c\<lparr>drawn := drawn c @
             [\<lparr>ly_img = img, ly_x = dx, ly_y = dy, ly_w = dw, ly_h = dh, ly_ctm = ctm c\<rparr>]\<rparr>))"

text \<open>Where the centre of a layer's destination rectangle lands on the bitmap.\<close>

definition layerCenter :: "layer \<Rightarrow> real \<times> real" where
  "layerCenter l = mat_apply (ly_ctm l) (ly_x l + ly_w l / 2, ly_y l + ly_h l / 2)"

section \<open>PhotoboothController\<close>

text \<open>
  \<open>Utils.loadImage\<close>: the promise resolves with the loaded element or rejects. Which
  sources load is the environment's choice.
\<close>

type_synonym loader = "string \<Rightarrow> image option"

definition loadImage :: "loader \<Rightarrow> string \<Rightarrow> error + image" where
  "loadImage env src =
     (case env src of None \<Rightarrow> Inl (ImageLoadFailed src) | Some img \<Rightarrow> Inr img)"

text \<open>\<open>addProp\<close>; \<open>uuid\<close> is what \<open>Utils.generateUUID()\<close> returns.\<close>

definition addProp :: "loader \<Rightarrow> string \<Rightarrow> asset \<Rightarrow> state \<Rightarrow> state" where
  "addProp env uuid a s =
     (case loadImage env (asset_src a) of
        Inl e \<Rightarrow> s\<lparr>errorLog := errorLog s @ [(''PhotoboothController.addProp'', e)]\<rparr>
      | Inr img \<Rightarrow>
          let r = next_ref s;
              obj = \<lparr> prop_id = uuid, prop_name = asset_name a, prop_src = asset_src a,
                      prop_img = img, prop_x = 0.5, prop_y = 0.5, prop_scale = 1,
                      prop_rotation = 0, prop_width = STICKER_BASE_SIZE,
                      prop_height = STICKER_BASE_SIZE * (img_height img / img_width img) \<rparr>
          in s\<lparr>heap := (heap s)(r := obj), next_ref := Suc r,
               props := props s @ [r], selectedProp := Some r\<rparr>)"

text \<open>The body of the loop over \<open>this.props\<close> in \<open>compositeImage\<close>, with its \<open>try\<close>/\<open>catch\<close>.\<close>

definition drawProp :: "propObj \<Rightarrow> state \<Rightarrow> state" where
  "drawProp p s =
     (let c = ctx s;
          x = prop_x p * cv_width c - (prop_width p * prop_scale p) / 2;
          y = prop_y p * cv_height c - (prop_height p * prop_scale p) / 2;
          c1 = ctx_save c;
          c2 = ctx_translate (x + (prop_width p * prop_scale p) / 2)
                 (y + (prop_height p * prop_scale p) / 2) c1;
          c3 = ctx_rotate (prop_rotation p) c2;
          c4 = ctx_scale (prop_scale p) (prop_scale p) c3
      in (case ctx_drawImage (prop_img p) (- prop_width p / 2) (- prop_height p / 2)
                 (prop_width p) (prop_height p) c4 of
            Inr c5 \<Rightarrow> s\<lparr>ctx := ctx_restore c5\<rparr>
          | Inl e \<Rightarrow> s\<lparr>ctx := c4,
                errorLog := errorLog s @ [(''PhotoboothController.compositeImage.prop'', e)]\<rparr>))"

fun drawProps :: "ref list \<Rightarrow> state \<Rightarrow> state" where
  "drawProps [] s = s"
| "drawProps (r # rs) s = drawProps rs (drawProp (heap s r) s)"

text \<open>The \<open>if (this.currentOverlay)\<close> block of \<open>compositeImage\<close>, with its \<open>try\<close>/\<open>catch\<close>.\<close>

definition drawOverlay :: "loader \<Rightarrow> state \<Rightarrow> state" where
  "drawOverlay env s =
     (case currentOverlay s of
        None \<Rightarrow> s
      | Some ov \<Rightarrow>
          (case loadImage env (asset_src ov) of
             Inl e \<Rightarrow> s\<lparr>errorLog := errorLog s @
                          [(''PhotoboothController.compositeImage.overlay'', e)]\<rparr>
           | Inr overlayImg \<Rightarrow>
               (case ctx_drawImage overlayImg 0 0 (cv_width (ctx s)) (cv_height (ctx s)) (ctx s) of
                  Inr c \<Rightarrow> s\<lparr>ctx := c\<rparr>
                | Inl e \<Rightarrow> s\<lparr>errorLog := errorLog s @
                             [(''PhotoboothController.compositeImage.overlay'', e)]\<rparr>)))"

text \<open>
  \<open>compositeImage\<close>. Loading and drawing the photo happen outside any \<open>try\<close>, so their
  failure rejects the promise (\<open>Inl\<close>). \<open>drawImage(photoImg, 0, 0)\<close> draws the photo in
  its own size. The function is run as one step: nothing else touches the state while it
  awaits.
\<close>

definition compositeImage :: "loader \<Rightarrow> state \<Rightarrow> string \<Rightarrow> error + state" where
  "compositeImage env s photoDataURL =
     (case loadImage env photoDataURL of
        Inl e \<Rightarrow> Inl e
      | Inr photoImg \<Rightarrow>
          let c0 = setHeight (img_height photoImg) (setWidth (img_width photoImg) (ctx s))
          in (case ctx_drawImage photoImg 0 0 (img_width photoImg) (img_height photoImg) c0 of
                Inl e \<Rightarrow> Inl e
              | Inr c1 \<Rightarrow>
                  (let s1 = drawOverlay env (s\<lparr>ctx := c1\<rparr>)
                   in Inr (drawProps (props s1) s1))))"

section \<open>The specification's vocabulary\<close>

text \<open>
  The retained gesture is cleared when no pointer is active.
\<close>

definition cleared :: "state \<Rightarrow> bool" where
  "cleared s = (if pointers s = [] then lastGesture s = None else True)"

text \<open>Clamping a value into \<open>[lo, hi]\<close>, as the specification uses the word.\<close>

definition clamp :: "real \<Rightarrow> real \<Rightarrow> real \<Rightarrow> real" where
  "clamp lo hi v = (if v < lo then lo else if hi < v then hi else v)"

text \<open>
  The layers the specification's algorithm prescribes on a \<open>W \<times> H\<close> surface: the photo at
  the origin in its own size, the overlay stretched over the surface, and a prop of
  extents \<open>width \<times> height\<close> drawn about the origin of a frame that sits at
  \<open>(pose.x * W, pose.y * H)\<close>, turned by \<open>pose.rotation\<close> and scaled by \<open>pose.scale\<close>.
\<close>

definition photoLayer :: "image \<Rightarrow> layer" where
  "photoLayer img =
     \<lparr>ly_img = img, ly_x = 0, ly_y = 0, ly_w = img_width img, ly_h = img_height img,
      ly_ctm = identity\<rparr>"

definition overlayLayer :: "real \<Rightarrow> real \<Rightarrow> image \<Rightarrow> layer" where
  "overlayLayer W H img =
     \<lparr>ly_img = img, ly_x = 0, ly_y = 0, ly_w = W, ly_h = H, ly_ctm = identity\<rparr>"

definition propLayer :: "real \<Rightarrow> real \<Rightarrow> propObj \<Rightarrow> layer" where
  "propLayer W H p =
     \<lparr>ly_img = prop_img p,
      ly_x = - prop_width p / 2, ly_y = - prop_height p / 2,
      ly_w = prop_width p, ly_h = prop_height p,
      ly_ctm = (prop_scale p * cos (prop_rotation p), prop_scale p * sin (prop_rotation p),
                - (prop_scale p * sin (prop_rotation p)), prop_scale p * cos (prop_rotation p),
                prop_x p * W, prop_y p * H)\<rparr>"

text \<open>The overlay image a composition has to draw, if an overlay is active and loads.\<close>

definition overlayImages :: "loader \<Rightarrow> state \<Rightarrow> image list" where
  "overlayImages env s =
     (case currentOverlay s of
        None \<Rightarrow> []
      | Some ov \<Rightarrow> (case env (asset_src ov) of None \<Rightarrow> [] | Some img \<Rightarrow> [img]))"

definition overlayReady :: "loader \<Rightarrow> state \<Rightarrow> bool" where
  "overlayReady env s =
     (case currentOverlay s of
        None \<Rightarrow> True
      | Some ov \<Rightarrow> (case env (asset_src ov) of None \<Rightarrow> False | Some img \<Rightarrow> \<not> img_broken img))"

definition propsDrawable :: "state \<Rightarrow> bool" where
  "propsDrawable s = list_all (\<lambda>r. \<not> img_broken (prop_img (heap s r))) (props s)"


text \<open>
  Containment in the axis-aligned box about a prop's centre, with half-extents
  \<open>width * scale / 2 / offsetWidth\<close> and \<open>height * scale / 2 / offsetHeight\<close>; the
  prop's rotation plays no part.
\<close>

definition inUnrotatedBox :: "canvas_box \<Rightarrow> propObj \<Rightarrow> real \<Rightarrow> real \<Rightarrow> bool" where
  "inUnrotatedBox b p x y =
     (\<bar>x - prop_x p\<bar> \<le> prop_width p * prop_scale p / 2 / offsetWidth b \<and>
      \<bar>y - prop_y p\<bar> \<le> prop_height p * prop_scale p / 2 / offsetHeight b)"

text \<open>The same state with every prop's rotation replaced.\<close>

definition turned :: "(ref \<Rightarrow> real) \<Rightarrow> state \<Rightarrow> state" where
  "turned f s = s\<lparr>heap := (\<lambda>r. (heap s r)\<lparr>prop_rotation := f r\<rparr>)\<rparr>"

text \<open>A context at rest (identity transform, nothing saved) holding the given layers.\<close>

definition composed :: "real \<Rightarrow> real \<Rightarrow> layer list \<Rightarrow> context2d" where
  "composed W H ls = \<lparr>cv_width = W, cv_height = H, ctm = identity, saved = [], drawn = ls\<rparr>"

text \<open>What a successful composition drew: the images and where their centres landed.\<close>

definition drawnImages :: "error + state \<Rightarrow> image list" where
  "drawnImages r = (case r of Inl e \<Rightarrow> [] | Inr s \<Rightarrow> map ly_img (drawn (ctx s)))"

definition drawnCenters :: "error + state \<Rightarrow> (real \<times> real) list" where
  "drawnCenters r = (case r of Inl e \<Rightarrow> [] | Inr s \<Rightarrow> map layerCenter (drawn (ctx s)))"

section \<open>Sample inputs\<close>

definition blankImage :: image where
  "blankImage = \<lparr>img_src = [], img_width = 0, img_height = 0, img_broken = False\<rparr>"

definition blankProp :: propObj where
  "blankProp =
     \<lparr>prop_id = [], prop_name = [], prop_src = [], prop_img = blankImage,
      prop_x = 0, prop_y = 0, prop_scale = 1, prop_rotation = 0,
      prop_width = 0, prop_height = 0\<rparr>"

text \<open>
  The state after the constructors and \<open>init\<close>, on a canvas laid out as a
  \<open>1000 \<times> 1000\<close> box at the viewport's origin.
\<close>

definition stage :: state where
  "stage =
     \<lparr>isActive = True, pointers = [], lastGesture = None, props = [],
      selectedProp = None, currentOverlay = None, heap = (\<lambda>r. blankProp), next_ref = 0,
      box = \<lparr>offsetWidth = 1000, offsetHeight = 1000, rect_left = 0, rect_top = 0\<rparr>,
      ctx = \<lparr>cv_width = 300, cv_height = 150, ctm = identity, saved = [], drawn = []\<rparr>,
      errorLog = []\<rparr>"

definition wideImage :: image where
  "wideImage = \<lparr>img_src = ''wide.png'', img_width = 200, img_height = 100, img_broken = False\<rparr>"

text \<open>A \<open>200 \<times> 100\<close> prop centred at \<open>(0.5, 0.5)\<close> and rotated by a quarter turn.\<close>

definition wideProp :: propObj where
  "wideProp =
     \<lparr>prop_id = ''p0'', prop_name = ''wide'', prop_src = ''wide.png'', prop_img = wideImage,
      prop_x = 0.5, prop_y = 0.5, prop_scale = 1, prop_rotation = pi / 2,
      prop_width = 200, prop_height = 100\<rparr>"

definition wideStage :: state where
  "wideStage = stage\<lparr>props := [0], heap := (heap stage)(0 := wideProp), next_ref := 1\<rparr>"

definition selectedStage :: state where
  "selectedStage = wideStage\<lparr>selectedProp := Some 0\<rparr>"

definition photoImage :: image where
  "photoImage = \<lparr>img_src = ''photo'', img_width = 1000, img_height = 1000, img_broken = False\<rparr>"

definition hatImage :: image where
  "hatImage = \<lparr>img_src = ''hat.png'', img_width = 110, img_height = 55, img_broken = False\<rparr>"

text \<open>An environment in which the photo and the hat load and nothing else does.\<close>

definition assets :: loader where
  "assets src =
     (if src = ''photo'' then Some photoImage
      else if src = ''hat.png'' then Some hatImage
      else None)"

definition hat :: asset where
  "hat = \<lparr>asset_name = ''hat'', asset_src = ''hat.png''\<rparr>"

definition frame :: asset where
  "frame = \<lparr>asset_name = ''frame'', asset_src = ''frame.png''\<rparr>"

definition framedStage :: state where
  "framedStage = stage\<lparr>currentOverlay := Some frame\<rparr>"

definition press :: pointer_event where
  "press = \<lparr>pointerId = 1, clientX = 500, clientY = 500, ev_now = 0\<rparr>"

definition drag :: pointer_event where
  "drag = \<lparr>pointerId = 1, clientX = 1500, clientY = 500, ev_now = 16\<rparr>"

definition secondPress :: pointer_event where
  "secondPress = \<lparr>pointerId = 2, clientX = 503, clientY = 504, ev_now = 32\<rparr>"

text \<open>A square prop on the diagonal, at \<open>(k, k)\<close> with scale \<open>sc\<close>.\<close>

definition squareImage :: image where
  "squareImage = \<lparr>img_src = ''sq.png'', img_width = 100, img_height = 100, img_broken = False\<rparr>"

definition squareProp :: "real \<Rightarrow> real \<Rightarrow> image \<Rightarrow> propObj" where
  "squareProp k sc img =
     \<lparr>prop_id = ''sq'', prop_name = ''square'', prop_src = img_src img, prop_img = img,
      prop_x = k, prop_y = k, prop_scale = sc, prop_rotation = 0,
      prop_width = 100, prop_height = 100\<rparr>"

text \<open>The wide prop selected, with an out-of-range gesture retained.\<close>

definition pinchStage :: state where
  "pinchStage = selectedStage\<lparr>lastGesture := Some (Transform 0.503 1.7 10 7 0.1 7)\<rparr>"

definition overshootStage :: state where
  "overshootStage = selectedStage\<lparr>lastGesture := Some (Translate 1.5 0.5)\<rparr>"

text \<open>Two pointers \<open>5 k\<close> pixels apart.\<close>

definition nearPointer :: pointer where
  "nearPointer = \<lparr>ptr_id = 1, ptr_x = 100, ptr_y = 100, ptr_timestamp = 0\<rparr>"

definition farPointer :: "real \<Rightarrow> pointer" where
  "farPointer k = \<lparr>ptr_id = 2, ptr_x = 100 + 3 * k, ptr_y = 100 + 4 * k, ptr_timestamp = 0\<rparr>"

text \<open>An overlay that loads and two drawable props.\<close>

definition partyStage :: state where
  "partyStage =
     stage\<lparr>currentOverlay := Some hat, props := [0, 1],
       heap := (heap stage)(0 := wideProp, 1 := squareProp 0.75 2 squareImage),
       next_ref := 2\<rparr>"


section \<open>Properties of the gesture handler\<close>

lemma updateGesture_fields:
  "pointers (updateGesture s) = pointers s"
  "selectedProp (updateGesture s) = selectedProp s"
  "props (updateGesture s) = props s"
  "heap (updateGesture s) = heap s"
  "isActive (updateGesture s) = isActive s"
  "box (updateGesture s) = box s"
  by (simp_all add: updateGesture_def split: list.splits)

lemma applyGesture_fields:
  "pointers (applyGesture s) = pointers s"
  "selectedProp (applyGesture s) = selectedProp s"
  "props (applyGesture s) = props s"
  "lastGesture (applyGesture s) = lastGesture s"
  "isActive (applyGesture s) = isActive s"
  "box (applyGesture s) = box s"
  by (simp_all add: applyGesture_def split: option.splits gesture.splits)

lemma handleSinglePointerDown_fields:
  "pointers (handleSinglePointerDown s p) = pointers s"
  "props (handleSinglePointerDown s p) = props s"
  "heap (handleSinglePointerDown s p) = heap s"
  "lastGesture (handleSinglePointerDown s p) = lastGesture s"
  "isActive (handleSinglePointerDown s p) = isActive s"
  "box (handleSinglePointerDown s p) = box s"
  by (simp_all add: handleSinglePointerDown_def Let_def split: option.splits)

lemma map_set_nonempty: "map_set m k v \<noteq> []"
  by (cases m) (auto split: if_splits)

lemma updateGesture_cleared: "pointers s \<noteq> [] \<Longrightarrow> cleared (updateGesture s)"
  by (simp add: cleared_def updateGesture_fields)

lemma dispatch_cleared: "cleared s \<Longrightarrow> cleared (dispatch s i)"
proof (cases i)
  case (PointerDown e)
  assume c: "cleared s"
  show ?thesis
  proof (cases "isActive s")
    case False
    with c PointerDown show ?thesis by (simp add: handlePointerDown_def)
  next
    case True
    then have "pointers (handlePointerDown s e) \<noteq> []"
      by (simp add: handlePointerDown_def Let_def updateGesture_fields
          handleSinglePointerDown_fields map_set_nonempty)
    with PointerDown show ?thesis by (simp add: cleared_def)
  qed
next
  case (PointerMove e)
  assume c: "cleared s"
  show ?thesis
  proof (cases "\<not> isActive s \<or> \<not> map_has (pointers s) (pointerId e)")
    case True
    with c PointerMove show ?thesis by (simp add: handlePointerMove_def)
  next
    case False
    then have "pointers (handlePointerMove s e) \<noteq> []"
      by (simp add: handlePointerMove_def Let_def updateGesture_fields
          applyGesture_fields map_set_nonempty)
    with PointerMove show ?thesis by (simp add: cleared_def)
  qed
next
  case (PointerUp e)
  assume c: "cleared s"
  have "cleared (handlePointerUp s e)"
    using c by (simp add: handlePointerUp_def Let_def cleared_def updateGesture_fields)
  with PointerUp show ?thesis by simp
next
  case (PointerCancel e)
  assume c: "cleared s"
  have "cleared (handlePointerUp s e)"
    using c by (simp add: handlePointerUp_def Let_def cleared_def updateGesture_fields)
  with PointerCancel show ?thesis by (simp add: handlePointerCancel_def)
qed

lemma run_cleared: "cleared s \<Longrightarrow> cleared (run s evs)"
  unfolding run_def by (induction evs arbitrary: s) (simp_all add: dispatch_cleared)

lemma dispatch_keeps: "isActive (dispatch s i) = isActive s \<and> box (dispatch s i) = box s"
  by (cases i)
    (simp_all add: handlePointerDown_def handlePointerMove_def handlePointerUp_def
      handlePointerCancel_def Let_def updateGesture_fields applyGesture_fields
      handleSinglePointerDown_fields)

lemma run_keeps: "isActive (run s evs) = isActive s \<and> box (run s evs) = box s"
  unfolding run_def by (induction evs arbitrary: s) (simp_all add: dispatch_keeps)

text \<open>
  Claim C9. Start from a handler with no pointer and no gesture, as the constructor leaves
  it, and deliver any sequence of pointer-down, -move, -up and -cancel events. If no
  pointer is active at the end, the retained gesture is \<open>null\<close>; and the next pointer-down
  on an active handler, then the only pointer, leaves a \<open>translate\<close> gesture at that
  pointer's normalised position, not a \<open>transform\<close>.
\<close>

theorem retained_gesture_cleared:
  assumes "pointers s0 = []" and "lastGesture s0 = None"
    and "pointers (run s0 evs) = []"
  shows "lastGesture (run s0 evs) = None \<and>
    (isActive s0 \<longrightarrow>
      (\<exists>x y. lastGesture (handlePointerDown (run s0 evs) e) = Some (Translate x y))) \<and>
    (isActive s0 \<and> 0 < offsetWidth (box s0) \<and> 0 < offsetHeight (box s0) \<longrightarrow>
      lastGesture (handlePointerDown (run s0 evs) e) =
        Some (Translate ((clientX e - rect_left (box s0)) / offsetWidth (box s0))
                        ((clientY e - rect_top (box s0)) / offsetHeight (box s0))))"
proof -
  have "cleared s0" using assms(1,2) by (simp add: cleared_def)
  then have "cleared (run s0 evs)" by (rule run_cleared)
  with assms(3) have none: "lastGesture (run s0 evs) = None" by (simp add: cleared_def)
  have "lastGesture (handlePointerDown (run s0 evs) e) =
        Some (Translate ((clientX e - rect_left (box s0)) / offsetWidth (box s0))
                        ((clientY e - rect_top (box s0)) / offsetHeight (box s0)))"
    if "isActive s0"
    using that assms(3) run_keeps [of s0 evs]
    by (simp add: handlePointerDown_def Let_def updateGesture_def getPointerFromEvent_def
        handleSinglePointerDown_fields)
  with none show ?thesis by simp
qed


theorem retained_gesture_cleared_witness:
  "pointers stage = [] \<and> lastGesture stage = None \<and>
   pointers (run stage [PointerDown press, PointerDown secondPress, PointerMove drag,
      PointerUp press, PointerCancel secondPress]) = [] \<and>
   lastGesture (run stage [PointerDown press, PointerDown secondPress, PointerMove drag,
      PointerUp press, PointerCancel secondPress]) = None \<and>
   isActive stage \<and> 0 < offsetWidth (box stage) \<and> 0 < offsetHeight (box stage) \<and>
   lastGesture (handlePointerDown (run stage [PointerDown press, PointerDown secondPress,
      PointerMove drag, PointerUp press, PointerCancel secondPress]) press) =
     Some (Translate 0.5 0.5)"
proof -
  let ?evs = "[PointerDown press, PointerDown secondPress, PointerMove drag,
      PointerUp press, PointerCancel secondPress]"
  have a: "pointers stage = []" and b: "lastGesture stage = None" and c: "isActive stage"
    by (simp_all add: stage_def)
  have d: "pointers (run stage ?evs) = []"
    by (simp add: run_def stage_def press_def secondPress_def drag_def handlePointerDown_def
        handlePointerMove_def handlePointerUp_def handlePointerCancel_def Let_def
        updateGesture_fields applyGesture_fields handleSinglePointerDown_fields
        map_has_def map_delete_def)
  show ?thesis
    using retained_gesture_cleared [OF a b d, of press] a b c d
    by (simp add: stage_def press_def)
qed

text \<open>
  Claim C8. The \<open>scale\<close> of the gesture derived from two pointers is their Euclidean
  pixel distance divided by 100; a pair of pointers twice as far apart gives exactly
  twice the scale; and the gesture \<open>updateGesture\<close> retains for two pointers is this one
  whatever the props' poses in the store are.
\<close>

theorem two_pointer_scale_is_distance_over_100:
  "gesture_scale (computeTwoPointerGesture b p1 p2) = getDistance p1 p2 / 100 \<and>
   (getDistance q1 q2 = 2 * getDistance p1 p2 \<longrightarrow>
      gesture_scale (computeTwoPointerGesture b q1 q2) =
        2 * gesture_scale (computeTwoPointerGesture b p1 p2)) \<and>
   (map snd (pointers s) = [p1, p2] \<longrightarrow>
      lastGesture (updateGesture (s\<lparr>heap := h\<rparr>)) =
        Some (computeTwoPointerGesture (box s) p1 p2))"
  by (simp add: computeTwoPointerGesture_def getDistance_def Let_def updateGesture_def)

lemma sqrt_25: "sqrt 25 = 5"
  using real_sqrt_abs [of 5] by simp

lemma sqrt_100: "sqrt 100 = 10"
  using real_sqrt_abs [of 10] by simp

text \<open>
  Pointers at \<open>(100, 100)\<close> and \<open>(103, 104)\<close> are 5 pixels apart and give scale \<open>0.05\<close>;
  moving the second to \<open>(106, 108)\<close> doubles the distance and the scale.
\<close>

theorem two_pointer_scale_is_distance_over_100_witness:
  "gesture_scale (computeTwoPointerGesture (box stage) nearPointer (farPointer 1)) = 0.05 \<and>
   getDistance nearPointer (farPointer 2) = 2 * getDistance nearPointer (farPointer 1) \<and>
   gesture_scale (computeTwoPointerGesture (box stage) nearPointer (farPointer 2)) = 0.1 \<and>
   map snd (pointers (stage\<lparr>pointers := [(1, nearPointer), (2, farPointer 1)]\<rparr>)) =
     [nearPointer, farPointer 1] \<and>
   lastGesture (updateGesture (stage\<lparr>pointers := [(1, nearPointer), (2, farPointer 1)],
       heap := heap selectedStage\<rparr>)) =
     Some (computeTwoPointerGesture (box stage) nearPointer (farPointer 1))"
proof -
  have d1: "getDistance nearPointer (farPointer 1) = 5"
    by (simp add: getDistance_def nearPointer_def farPointer_def sqrt_25)
  have d2: "getDistance nearPointer (farPointer 2) = 10"
    by (simp add: getDistance_def nearPointer_def farPointer_def sqrt_100)
  show ?thesis
    using two_pointer_scale_is_distance_over_100
      [of "box stage" nearPointer "farPointer 1" nearPointer "farPointer 2"
          "stage\<lparr>pointers := [(1, nearPointer), (2, farPointer 1)]\<rparr>" "heap selectedStage"]
      d1 d2
    by simp
qed

subsection \<open>Applying a gesture\<close>

text \<open>\<open>Math.max(lo, Math.min(hi, v))\<close> is clamping, when the bounds are in order.\<close>

lemma clamp_max_min: "lo \<le> hi \<Longrightarrow> max lo (min hi v) = clamp lo hi v"
  by (simp add: clamp_def max_def min_def)

lemma scale_bounds: "MIN_SCALE \<le> MAX_SCALE"
  by (simp add: MIN_SCALE_def MAX_SCALE_def)

text \<open>
  Claim C7. With a gesture retained and a prop selected, \<open>applyGesture\<close> stores in
  the selected prop: for a \<open>translate\<close>, \<open>x\<close> and \<open>y\<close> clamped into \<open>[0, 1]\<close>; for a
  \<open>transform\<close>, the centre clamped into \<open>[0, 1]\<close>, the scale clamped into
  \<open>[MIN_SCALE, MAX_SCALE]\<close> and the rotation as it is. Every other field of the prop and
  every other prop stay as they were.
\<close>

theorem applyGesture_sets_clamped_pose:
  assumes "lastGesture s = Some g" and "selectedProp s = Some r"
  shows "heap (applyGesture s) r =
      (case g of
         Translate x y \<Rightarrow>
           (heap s r)\<lparr>prop_x := clamp 0 1 x, prop_y := clamp 0 1 y\<rparr>
       | Transform cx cy d a sc rot \<Rightarrow>
           (heap s r)\<lparr>prop_x := clamp 0 1 cx, prop_y := clamp 0 1 cy,
                       prop_scale := clamp MIN_SCALE MAX_SCALE sc, prop_rotation := rot\<rparr>)
    \<and> (\<forall>r'. r' \<noteq> r \<longrightarrow> heap (applyGesture s) r' = heap s r')"
  using assms
  by (cases g) (simp_all add: applyGesture_def clamp_max_min scale_bounds)

text \<open>
  A raw scale of \<open>0.1\<close> becomes exactly \<open>0.2\<close>, a centre ordinate of \<open>1.7\<close> becomes \<open>1\<close>,
  and a rotation of 7 radians is stored as 7.
\<close>

theorem applyGesture_sets_clamped_pose_witness:
  "lastGesture pinchStage = Some (Transform 0.503 1.7 10 7 0.1 7) \<and>
   selectedProp pinchStage = Some 0 \<and>
   prop_x (heap (applyGesture pinchStage) 0) = 0.503 \<and>
   prop_y (heap (applyGesture pinchStage) 0) = 1 \<and>
   prop_scale (heap (applyGesture pinchStage) 0) = 0.2 \<and>
   prop_rotation (heap (applyGesture pinchStage) 0) = 7 \<and>
   heap (applyGesture pinchStage) 1 = heap pinchStage 1"
proof -
  have a: "lastGesture pinchStage = Some (Transform 0.503 1.7 10 7 0.1 7)"
    by (simp add: pinchStage_def)
  have b: "selectedProp pinchStage = Some 0"
    by (simp add: pinchStage_def selectedStage_def)
  show ?thesis
    using applyGesture_sets_clamped_pose [OF a b] a b
    by (simp add: clamp_def MIN_SCALE_def MAX_SCALE_def)
qed

text \<open>
  Overwriting the pose fields of a prop gives the same prop exactly when they already
  hold the values written.
\<close>

lemma xy_update_same:
  "(p\<lparr>prop_x := a, prop_y := b\<rparr> = p) = (prop_x p = a \<and> prop_y p = b)"
  by (cases p) auto

lemma pose_update_same:
  "(p\<lparr>prop_x := a, prop_y := b, prop_scale := c, prop_rotation := d\<rparr> = p) =
     (prop_x p = a \<and> prop_y p = b \<and> prop_scale p = c \<and> prop_rotation p = d)"
  by (cases p) auto

text \<open>
  Claim C4, as amended. \<open>applyGesture\<close> does not consult \<open>isValidGesture\<close>: a gesture
  that \<open>isValidGesture\<close> rejects is applied all the same. The selected prop's position
  becomes the gesture's position clamped into \<open>[0, 1]\<close> and, for a \<open>transform\<close>, its scale
  the nearer of \<open>MIN_SCALE\<close> and \<open>MAX_SCALE\<close> and its rotation the gesture's; what is stored
  differs from the raw out-of-range value. The prior pose survives exactly when it
  already equals the clamped values.
\<close>

theorem out_of_range_gesture_is_clamped:
  assumes "lastGesture s = Some g" and "selectedProp s = Some r"
    and "\<not> isValidGesture (Some g)"
  shows "case g of
      Translate x y \<Rightarrow>
        prop_x (heap (applyGesture s) r) = clamp 0 1 x \<and>
        prop_y (heap (applyGesture s) r) = clamp 0 1 y \<and>
        (prop_x (heap (applyGesture s) r) \<noteq> x \<or> prop_y (heap (applyGesture s) r) \<noteq> y) \<and>
        (heap (applyGesture s) r = heap s r) =
          (prop_x (heap s r) = clamp 0 1 x \<and> prop_y (heap s r) = clamp 0 1 y)
    | Transform cx cy d a sc rot \<Rightarrow>
        prop_x (heap (applyGesture s) r) = clamp 0 1 cx \<and>
        prop_y (heap (applyGesture s) r) = clamp 0 1 cy \<and>
        prop_scale (heap (applyGesture s) r) = (if sc < MIN_SCALE then MIN_SCALE else MAX_SCALE) \<and>
        prop_scale (heap (applyGesture s) r) \<noteq> sc \<and>
        prop_rotation (heap (applyGesture s) r) = rot \<and>
        (heap (applyGesture s) r = heap s r) =
          (prop_x (heap s r) = clamp 0 1 cx \<and> prop_y (heap s r) = clamp 0 1 cy \<and>
           prop_scale (heap s r) = (if sc < MIN_SCALE then MIN_SCALE else MAX_SCALE) \<and>
           prop_rotation (heap s r) = rot)"
proof (cases g)
  case (Translate x y)
  have h: "heap (applyGesture s) r = (heap s r)\<lparr>prop_x := clamp 0 1 x, prop_y := clamp 0 1 y\<rparr>"
    using assms(1,2) Translate by (simp add: applyGesture_def clamp_max_min)
  have "clamp 0 1 x \<noteq> x \<or> clamp 0 1 y \<noteq> y"
    using assms(3) Translate by (auto simp add: isValidGesture_def clamp_def)
  then show ?thesis
    using Translate by (simp add: h xy_update_same)
next
  case (Transform cx cy d a sc rot)
  have h: "heap (applyGesture s) r = (heap s r)\<lparr>prop_x := clamp 0 1 cx, prop_y := clamp 0 1 cy,
      prop_scale := clamp MIN_SCALE MAX_SCALE sc, prop_rotation := rot\<rparr>"
    using assms(1,2) Transform by (simp add: applyGesture_def clamp_max_min scale_bounds)
  have c: "clamp MIN_SCALE MAX_SCALE sc = (if sc < MIN_SCALE then MIN_SCALE else MAX_SCALE)"
    "clamp MIN_SCALE MAX_SCALE sc \<noteq> sc"
    using assms(3) Transform scale_bounds by (auto simp add: isValidGesture_def clamp_def)
  show ?thesis
    using Transform c by (simp add: h pose_update_same)
qed

text \<open>
  A \<open>translate\<close> to \<open>x = 1.5\<close> moves the selected prop from \<open>x = 0.5\<close> to \<open>x = 1\<close>; applied
  once more, with the prop now at the edge, it leaves the prop where it is.
\<close>

theorem out_of_range_gesture_is_clamped_witness:
  "lastGesture overshootStage = Some (Translate 1.5 0.5) \<and>
   selectedProp overshootStage = Some 0 \<and>
   \<not> isValidGesture (Some (Translate 1.5 0.5)) \<and>
   prop_x (heap overshootStage 0) = 0.5 \<and>
   prop_x (heap (applyGesture overshootStage) 0) = 1 \<and>
   prop_y (heap (applyGesture overshootStage) 0) = 0.5 \<and>
   heap (applyGesture overshootStage) 0 \<noteq> heap overshootStage 0 \<and>
   lastGesture (applyGesture overshootStage) = Some (Translate 1.5 0.5) \<and>
   selectedProp (applyGesture overshootStage) = Some 0 \<and>
   heap (applyGesture (applyGesture overshootStage)) 0 = heap (applyGesture overshootStage) 0"
proof -
  have a: "lastGesture overshootStage = Some (Translate 1.5 0.5)"
    by (simp add: overshootStage_def)
  have b: "selectedProp overshootStage = Some 0"
    by (simp add: overshootStage_def selectedStage_def)
  have c: "\<not> isValidGesture (Some (Translate 1.5 0.5))"
    by (simp add: isValidGesture_def)
  have d: "prop_x (heap overshootStage 0) = 0.5"
    by (simp add: overshootStage_def selectedStage_def wideStage_def wideProp_def)
  have a': "lastGesture (applyGesture overshootStage) = Some (Translate 1.5 0.5)"
    by (simp add: applyGesture_fields a)
  have b': "selectedProp (applyGesture overshootStage) = Some 0"
    by (simp add: applyGesture_fields b)
  have first: "prop_x (heap (applyGesture overshootStage) 0) = 1 \<and>
      prop_y (heap (applyGesture overshootStage) 0) = 0.5 \<and>
      heap (applyGesture overshootStage) 0 \<noteq> heap overshootStage 0"
    using out_of_range_gesture_is_clamped [OF a b c] d
    by (simp add: clamp_def)
  have second: "heap (applyGesture (applyGesture overshootStage)) 0 =
      heap (applyGesture overshootStage) 0"
    using out_of_range_gesture_is_clamped [OF a' b' c] first
    by (simp add: clamp_def)
  from a b c d a' b' first second show ?thesis by simp
qed

text \<open>
  Claim C4 as stated fails: press on the wide prop, then drag the pointer to
  \<open>clientX = 1500\<close> on the 1000 pixel wide canvas. The gesture derived is out of range,
  and the prop's \<open>x\<close> goes from \<open>0.5\<close> to \<open>1\<close> instead of staying.
\<close>

theorem invalid_gesture_not_discarded:
  "\<not> isValidGesture (lastGesture (handlePointerMove (handlePointerDown wideStage press) drag)) \<and>
   selectedProp (handlePointerDown wideStage press) = Some 0 \<and>
   prop_x (heap (handlePointerDown wideStage press) 0) = 0.5 \<and>
   prop_x (heap (handlePointerMove (handlePointerDown wideStage press) drag) 0) = 1"
  by (simp add: handlePointerMove_def handlePointerDown_def Let_def wideStage_def stage_def
      press_def drag_def getPointerFromEvent_def handleSinglePointerDown_def
      findPropAtPosition_def propContains_def wideProp_def updateGesture_def
      applyGesture_def isValidGesture_def map_has_def)

subsection \<open>What the handlers touch\<close>

text \<open>
  Claim C10. Pointer-down changes at most the pointer map, the selection and the retained
  gesture; pointer-up and pointer-cancel change at most the pointer map and the retained
  gesture. In particular the store of props, hence every pose, is the same before and
  after each of them.
\<close>

theorem poses_untouched_by_down_up_cancel:
  "(handlePointerDown s e)\<lparr>pointers := pointers s, selectedProp := selectedProp s,
        lastGesture := lastGesture s\<rparr> = s \<and>
   (handlePointerUp s e)\<lparr>pointers := pointers s, lastGesture := lastGesture s\<rparr> = s \<and>
   (handlePointerCancel s e)\<lparr>pointers := pointers s, lastGesture := lastGesture s\<rparr> = s \<and>
   heap (handlePointerDown s e) = heap s \<and>
   heap (handlePointerUp s e) = heap s \<and>
   heap (handlePointerCancel s e) = heap s"
proof -
  have u3: "(updateGesture t)\<lparr>pointers := ps, selectedProp := r, lastGesture := g\<rparr>
        = t\<lparr>pointers := ps, selectedProp := r, lastGesture := g\<rparr>" for t ps r g
    by (simp add: updateGesture_def split: list.splits)
  have h3: "(handleSinglePointerDown t p)\<lparr>pointers := ps, selectedProp := r, lastGesture := g\<rparr>
        = t\<lparr>pointers := ps, selectedProp := r, lastGesture := g\<rparr>" for t p ps r g
    by (simp add: handleSinglePointerDown_def Let_def split: option.splits)
  have u2: "(updateGesture t)\<lparr>pointers := ps, lastGesture := g\<rparr>
        = t\<lparr>pointers := ps, lastGesture := g\<rparr>" for t ps g
    by (simp add: updateGesture_def split: list.splits)
  have down: "(handlePointerDown s e)\<lparr>pointers := pointers s, selectedProp := selectedProp s,
        lastGesture := lastGesture s\<rparr> = s"
    using u3 h3 by (simp add: handlePointerDown_def Let_def)
  have up: "(handlePointerUp s e)\<lparr>pointers := pointers s, lastGesture := lastGesture s\<rparr> = s"
    using u2 by (simp add: handlePointerUp_def Let_def)
  have hd: "heap (handlePointerDown s e) = heap s"
    by (simp add: handlePointerDown_def Let_def updateGesture_fields
        handleSinglePointerDown_fields)
  have hu: "heap (handlePointerUp s e) = heap s"
    by (simp add: handlePointerUp_def Let_def updateGesture_fields)
  from down up hd hu show ?thesis
    by (simp add: handlePointerCancel_def)
qed

text \<open>
  On a state with a prop selected and an out-of-range gesture retained, down, up and
  cancel leave the prop as it is; the move that follows the press changes its \<open>x\<close>.
\<close>

theorem poses_untouched_by_down_up_cancel_witness:
  "heap (handlePointerDown overshootStage press) 0 = wideProp \<and>
   heap (handlePointerUp overshootStage press) 0 = wideProp \<and>
   heap (handlePointerCancel overshootStage press) 0 = wideProp \<and>
   prop_x (heap (handlePointerMove (handlePointerDown overshootStage press) drag) 0) = 1"
proof -
  have "heap overshootStage 0 = wideProp"
    by (simp add: overshootStage_def selectedStage_def wideStage_def)
  moreover have "prop_x (heap (handlePointerMove (handlePointerDown overshootStage press) drag) 0) = 1"
    by (simp add: handlePointerMove_def handlePointerDown_def Let_def wideStage_def stage_def
      overshootStage_def selectedStage_def
      press_def drag_def getPointerFromEvent_def handleSinglePointerDown_def
      findPropAtPosition_def propContains_def wideProp_def updateGesture_def
      applyGesture_def map_has_def)
  ultimately show ?thesis
    using poses_untouched_by_down_up_cancel [of overshootStage press]
    by simp
qed

subsection \<open>Hit-testing and selection\<close>

lemma propContains_unrotated: "propContains b p x y = inUnrotatedBox b p x y"
  by (auto simp add: propContains_def inUnrotatedBox_def Let_def abs_le_iff)

lemma findPropIn_find:
  "findPropIn b h rs x y = List.find (\<lambda>r. inUnrotatedBox b (h r) x y) rs"
  by (induction rs) (simp_all add: propContains_unrotated)

text \<open>
  Claim C1, as amended. \<open>findPropAtPosition\<close> returns the topmost prop (the last in
  \<open>props\<close>) whose unrotated, axis-aligned box holds the point, if there is one; the
  props' rotations have no influence on the result.
\<close>

theorem hit_test_is_axis_aligned:
  "(0 < offsetWidth (box s) \<and> 0 < offsetHeight (box s) \<longrightarrow>
      findPropAtPosition s x y =
        List.find (\<lambda>r. inUnrotatedBox (box s) (heap s r) x y) (rev (props s))) \<and>
   findPropAtPosition (turned f s) x y = findPropAtPosition s x y"
  by (simp add: findPropAtPosition_def findPropIn_find turned_def inUnrotatedBox_def)

text \<open>
  The corner \<open>(0.41, 0.45)\<close> of the wide prop's unrotated box is hit, with the prop's
  quarter turn or without it; \<open>(0.41, 0.44)\<close> is missed.
\<close>

theorem hit_test_is_axis_aligned_witness:
  "0 < offsetWidth (box wideStage) \<and> 0 < offsetHeight (box wideStage) \<and>
   findPropAtPosition wideStage 0.41 0.45 = Some 0 \<and>
   findPropAtPosition (turned (\<lambda>r. 0) wideStage) 0.41 0.45 = Some 0 \<and>
   findPropAtPosition wideStage 0.41 0.44 = None"
  using hit_test_is_axis_aligned [of wideStage "0.41" "0.45" "\<lambda>r. 0"]
    hit_test_is_axis_aligned [of wideStage "0.41" "0.44" "\<lambda>r. 0"]
  by (simp add: wideStage_def stage_def wideProp_def inUnrotatedBox_def)

text \<open>
  Claim C1 as stated fails: on a \<open>1000 \<times> 1000\<close> canvas the \<open>200 \<times> 100\<close> prop centred at
  \<open>(0.5, 0.5)\<close> and rotated by \<open>pi / 2\<close> is missed at \<open>(0.5, 0.59)\<close> and hit at
  \<open>(0.59, 0.5)\<close>.
\<close>

theorem quarter_turn_hit_test_unrotated:
  "prop_rotation (heap wideStage 0) = pi / 2 \<and>
   findPropAtPosition wideStage 0.5 0.59 = None \<and>
   findPropAtPosition wideStage 0.59 0.5 = Some 0"
  by (simp add: findPropAtPosition_def propContains_def wideStage_def stage_def wideProp_def)

text \<open>
  Claim C2, as amended. \<open>addProp\<close> with an image that loads appends the new prop and
  makes it the selection; with an image that does not load it leaves props and selection
  as they were. Pointer-down on an active handler, when it leaves exactly one pointer,
  sets the selection to the result of the hit test (a miss clears it) and otherwise
  keeps it; pointer-move, -up and -cancel keep it.
\<close>

theorem selection_changes:
  "(env (asset_src a) \<noteq> None \<longrightarrow>
      selectedProp (addProp env uuid a s) = Some (next_ref s) \<and>
      props (addProp env uuid a s) = props s @ [next_ref s]) \<and>
   (env (asset_src a) = None \<longrightarrow>
      selectedProp (addProp env uuid a s) = selectedProp s \<and>
      props (addProp env uuid a s) = props s) \<and>
   (0 < offsetWidth (box s) \<and> 0 < offsetHeight (box s) \<longrightarrow>
      selectedProp (handlePointerDown s e) =
        (if isActive s \<and>
            length (map_set (pointers s) (pointerId e) (getPointerFromEvent s e)) = 1
         then findPropAtPosition s
                (ptr_x (getPointerFromEvent s e) / offsetWidth (box s))
                (ptr_y (getPointerFromEvent s e) / offsetHeight (box s))
         else selectedProp s)) \<and>
   selectedProp (handlePointerMove s e) = selectedProp s \<and>
   selectedProp (handlePointerUp s e) = selectedProp s \<and>
   selectedProp (handlePointerCancel s e) = selectedProp s"
proof -
  have add: "selectedProp (addProp env uuid a s) = Some (next_ref s) \<and>
      props (addProp env uuid a s) = props s @ [next_ref s]" if "env (asset_src a) \<noteq> None"
    using that by (auto simp add: addProp_def loadImage_def Let_def)
  have fail: "selectedProp (addProp env uuid a s) = selectedProp s \<and>
      props (addProp env uuid a s) = props s" if "env (asset_src a) = None"
    using that by (simp add: addProp_def loadImage_def)
  have single: "selectedProp (handleSinglePointerDown t p) =
      findPropAtPosition t (ptr_x p / offsetWidth (box t)) (ptr_y p / offsetHeight (box t))" for t p
    by (simp add: handleSinglePointerDown_def Let_def split: option.splits)
  have down: "selectedProp (handlePointerDown s e) =
     (if isActive s \<and> length (map_set (pointers s) (pointerId e) (getPointerFromEvent s e)) = 1
      then findPropAtPosition s
             (ptr_x (getPointerFromEvent s e) / offsetWidth (box s))
             (ptr_y (getPointerFromEvent s e) / offsetHeight (box s))
      else selectedProp s)"
    by (simp add: handlePointerDown_def Let_def updateGesture_fields single
        findPropAtPosition_def)
  have move: "selectedProp (handlePointerMove s e) = selectedProp s"
    by (simp add: handlePointerMove_def Let_def updateGesture_fields applyGesture_fields)
  have up: "selectedProp (handlePointerUp s e) = selectedProp s"
    by (simp add: handlePointerUp_def Let_def updateGesture_fields)
  from add fail down move up show ?thesis
    by (simp add: handlePointerCancel_def)
qed

text \<open>
  With prop 0 selected: adding the hat selects the new prop 1; adding an asset that does
  not load keeps prop 0; a press off every prop clears the selection.
\<close>

theorem selection_changes_witness:
  "assets (asset_src hat) \<noteq> None \<and>
   selectedProp (addProp assets ''u1'' hat selectedStage) = Some 1 \<and>
   props (addProp assets ''u1'' hat selectedStage) = [0, 1] \<and>
   assets (asset_src frame) = None \<and>
   selectedProp (addProp assets ''u2'' frame selectedStage) = Some 0 \<and>
   props (addProp assets ''u2'' frame selectedStage) = [0] \<and>
   0 < offsetWidth (box selectedStage) \<and> 0 < offsetHeight (box selectedStage) \<and>
   selectedProp (handlePointerDown selectedStage drag) = None \<and>
   selectedProp (handlePointerMove selectedStage drag) = Some 0 \<and>
   selectedProp (handlePointerUp selectedStage drag) = Some 0"
proof -
  have a: "assets (asset_src hat) \<noteq> None" and b: "assets (asset_src frame) = None"
    by (simp_all add: assets_def hat_def frame_def)
  have c: "findPropAtPosition selectedStage 1.5 0.5 = None"
    by (simp add: findPropAtPosition_def propContains_def selectedStage_def wideStage_def
        stage_def wideProp_def)
  have d: "selectedProp selectedStage = Some 0 \<and> next_ref selectedStage = 1 \<and>
      props selectedStage = [0] \<and> pointers selectedStage = [] \<and> isActive selectedStage \<and>
      box selectedStage = \<lparr>offsetWidth = 1000, offsetHeight = 1000, rect_left = 0, rect_top = 0\<rparr>"
    by (simp add: selectedStage_def wideStage_def stage_def)
  show ?thesis
    using selection_changes [of assets hat "''u1''" selectedStage drag]
      selection_changes [of assets frame "''u2''" selectedStage drag] a b c d
    by (simp add: getPointerFromEvent_def drag_def)
qed

text \<open>
  Claim C2 as stated fails: with prop 0 selected, adding the hat makes the new prop 1
  the selection.
\<close>

theorem addProp_replaces_selection:
  "selectedProp selectedStage = Some 0 \<and>
   selectedProp (addProp assets ''u1'' hat selectedStage) = Some 1"
  by (simp add: addProp_def loadImage_def assets_def hat_def selectedStage_def wideStage_def
      stage_def Let_def)

section \<open>Properties of the compositor\<close>

text \<open>
  Drawing a prop whose image is usable, from a context at the identity transform, adds
  the layer the specification prescribes and leaves the transform state as it found it.
\<close>

lemma drawProp_drawable:
  assumes "\<not> img_broken (prop_img p)" and "ctm (ctx s) = identity"
  shows "drawProp p s =
    s\<lparr>ctx := (ctx s)\<lparr>drawn := drawn (ctx s) @
      [propLayer (cv_width (ctx s)) (cv_height (ctx s)) p]\<rparr>\<rparr>"
  using assms
  by (simp add: drawProp_def Let_def ctx_save_def ctx_translate_def ctx_rotate_def
      ctx_scale_def ctx_drawImage_def ctx_restore_def identity_def propLayer_def)

lemma drawProps_drawable:
  assumes "list_all (\<lambda>r. \<not> img_broken (prop_img (heap s r))) rs" and "ctm (ctx s) = identity"
  shows "drawProps rs s =
    s\<lparr>ctx := (ctx s)\<lparr>drawn := drawn (ctx s) @
      map (\<lambda>r. propLayer (cv_width (ctx s)) (cv_height (ctx s)) (heap s r)) rs\<rparr>\<rparr>"
  using assms
proof (induction rs arbitrary: s)
  case Nil
  then show ?case by simp
next
  case (Cons r rs)
  let ?t = "s\<lparr>ctx := (ctx s)\<lparr>drawn := drawn (ctx s) @
      [propLayer (cv_width (ctx s)) (cv_height (ctx s)) (heap s r)]\<rparr>\<rparr>"
  have step: "drawProp (heap s r) s = ?t"
    using Cons.prems by (simp add: drawProp_drawable)
  have "drawProps rs ?t =
    ?t\<lparr>ctx := (ctx ?t)\<lparr>drawn := drawn (ctx ?t) @
      map (\<lambda>r. propLayer (cv_width (ctx ?t)) (cv_height (ctx ?t)) (heap ?t r)) rs\<rparr>\<rparr>"
    using Cons.prems by (intro Cons.IH) simp_all
  with step show ?case by simp
qed

lemma propLayer_center: "layerCenter (propLayer W H p) = (prop_x p * W, prop_y p * H)"
  by (simp add: layerCenter_def propLayer_def)

lemma drawOverlay_ready:
  assumes "overlayReady env s" and "ctm (ctx s) = identity"
  shows "drawOverlay env s =
    s\<lparr>ctx := (ctx s)\<lparr>drawn := drawn (ctx s) @
      map (overlayLayer (cv_width (ctx s)) (cv_height (ctx s))) (overlayImages env s)\<rparr>\<rparr>"
proof (cases "currentOverlay s")
  case None
  then show ?thesis by (simp add: drawOverlay_def overlayImages_def)
next
  case (Some ov)
  with assms(1) obtain img where img: "env (asset_src ov) = Some img" "\<not> img_broken img"
    by (auto simp add: overlayReady_def split: option.splits)
  with Some assms(2) show ?thesis
    by (simp add: drawOverlay_def overlayImages_def loadImage_def ctx_drawImage_def
        overlayLayer_def)
qed

text \<open>
  Claim C5. When the photo loads, the overlay (if one is active) loads and every prop's
  image is usable, \<open>compositeImage\<close> succeeds and leaves on a canvas of the photo's
  size, in this order: the photo at the origin, the overlay stretched over the canvas,
  and each prop of \<open>props\<close> in list order, drawn about \<open>(x * width, y * height)\<close>, scaled
  by \<open>scale\<close> and rotated by \<open>rotation\<close>; the transform is the identity again and nothing
  is left on the stack of saved states. Nothing else of the state changes.
\<close>

theorem composition_order:
  assumes "env url = Some photo" and "\<not> img_broken photo"
    and "overlayReady env s" and "propsDrawable s"
  shows "compositeImage env s url =
      Inr (s\<lparr>ctx := composed (img_width photo) (img_height photo)
        (photoLayer photo #
         map (overlayLayer (img_width photo) (img_height photo)) (overlayImages env s) @
         map (\<lambda>r. propLayer (img_width photo) (img_height photo) (heap s r)) (props s))\<rparr>)
    \<and> layerCenter (propLayer (img_width photo) (img_height photo) p) =
        (prop_x p * img_width photo, prop_y p * img_height photo)"
proof -
  let ?W = "img_width photo" and ?H = "img_height photo"
  let ?c1 = "composed ?W ?H [photoLayer photo]"
  have c1: "ctx_drawImage photo 0 0 ?W ?H (setHeight ?H (setWidth ?W (ctx s))) = Inr ?c1"
    using assms(2)
    by (simp add: ctx_drawImage_def setHeight_def setWidth_def composed_def photoLayer_def)
  let ?s1 = "drawOverlay env (s\<lparr>ctx := ?c1\<rparr>)"
  have ready: "overlayReady env (s\<lparr>ctx := ?c1\<rparr>)"
    using assms(3) by (simp add: overlayReady_def)
  have s1: "?s1 = s\<lparr>ctx := composed ?W ?H
      (photoLayer photo # map (overlayLayer ?W ?H) (overlayImages env s))\<rparr>"
    by (subst drawOverlay_ready [OF ready]) (simp_all add: composed_def overlayImages_def)
  have "drawProps (props ?s1) ?s1 = s\<lparr>ctx := composed ?W ?H
        (photoLayer photo # map (overlayLayer ?W ?H) (overlayImages env s) @
         map (\<lambda>r. propLayer ?W ?H (heap s r)) (props s))\<rparr>"
    unfolding s1 using assms(4)
    by (subst drawProps_drawable) (simp_all add: propsDrawable_def composed_def)
  then show ?thesis
    using assms(1) c1 by (simp add: compositeImage_def loadImage_def Let_def propLayer_center)
qed

text \<open>
  A photo, an overlay and two props, one of them turned by a quarter and one scaled by
  two about \<open>(750, 750)\<close>.
\<close>

theorem composition_order_witness:
  "assets ''photo'' = Some photoImage \<and> \<not> img_broken photoImage \<and>
   overlayReady assets partyStage \<and> propsDrawable partyStage \<and>
   drawnImages (compositeImage assets partyStage ''photo'') =
     [photoImage, hatImage, wideImage, squareImage] \<and>
   drawnCenters (compositeImage assets partyStage ''photo'') =
     [(500, 500), (500, 500), (500, 500), (750, 750)] \<and>
   layerCenter (propLayer 1000 1000 wideProp) = (500, 500)"
proof -
  have a: "assets ''photo'' = Some photoImage" and b: "\<not> img_broken photoImage"
    by (simp_all add: assets_def photoImage_def)
  have c: "overlayReady assets partyStage"
    by (simp add: overlayReady_def partyStage_def stage_def hat_def assets_def hatImage_def)
  have d: "propsDrawable partyStage"
    by (simp add: propsDrawable_def partyStage_def stage_def wideProp_def wideImage_def
        squareProp_def squareImage_def)
  have e: "overlayImages assets partyStage = [hatImage]"
    by (simp add: overlayImages_def partyStage_def stage_def hat_def assets_def)
  have f: "props partyStage = [0, 1] \<and> heap partyStage 0 = wideProp \<and>
      heap partyStage (Suc 0) = squareProp 0.75 2 squareImage"
    by (simp add: partyStage_def stage_def)
  have g: "img_width photoImage = 1000 \<and> img_height photoImage = 1000"
    by (simp add: photoImage_def)
  show ?thesis
    using composition_order [OF a b c d, of wideProp] a b c d
    by (simp add: e f g drawnImages_def drawnCenters_def composed_def photoLayer_def
        overlayLayer_def propLayer_center layerCenter_def identity_def)
      (simp add: propLayer_def wideProp_def squareProp_def)
qed

text \<open>The context a run of \<open>drawProps\<close> produces depends on the context and the store only.\<close>

lemma drawProp_heap: "heap (drawProp p s) = heap s"
  by (simp add: drawProp_def Let_def split: sum.splits)

lemma drawProp_ctx_cong: "ctx s1 = ctx s2 \<Longrightarrow> ctx (drawProp p s1) = ctx (drawProp p s2)"
  by (simp add: drawProp_def Let_def split: sum.splits)

lemma drawProps_ctx_cong:
  "ctx s1 = ctx s2 \<Longrightarrow> heap s1 = heap s2 \<Longrightarrow> ctx (drawProps rs s1) = ctx (drawProps rs s2)"
proof (induction rs arbitrary: s1 s2)
  case Nil
  then show ?case by simp
next
  case (Cons r rs)
  have "ctx (drawProp (heap s2 r) s1) = ctx (drawProp (heap s2 r) s2)"
    using Cons.prems(1) by (rule drawProp_ctx_cong)
  then have c: "ctx (drawProp (heap s1 r) s1) = ctx (drawProp (heap s2 r) s2)"
    using Cons.prems(2) by simp
  have h: "heap (drawProp (heap s1 r) s1) = heap (drawProp (heap s2 r) s2)"
    using Cons.prems by (simp add: drawProp_heap)
  have "ctx (drawProps rs (drawProp (heap s1 r) s1)) = ctx (drawProps rs (drawProp (heap s2 r) s2))"
    using c h by (rule Cons.IH)
  then show ?case by simp
qed

lemma drawProp_errorLog: "\<exists>rest. errorLog (drawProp p s) = errorLog s @ rest"
  by (simp add: drawProp_def Let_def split: sum.splits)

lemma drawProps_errorLog: "\<exists>rest. errorLog (drawProps rs s) = errorLog s @ rest"
proof (induction rs arbitrary: s)
  case Nil
  then show ?case by simp
next
  case (Cons r rs)
  obtain r1 where r1: "errorLog (drawProp (heap s r) s) = errorLog s @ r1"
    using drawProp_errorLog by blast
  obtain r2 where "errorLog (drawProps rs (drawProp (heap s r) s)) =
      errorLog (drawProp (heap s r) s) @ r2"
    using Cons.IH by blast
  with r1 show ?case by simp
qed

text \<open>
  Claim C3, as amended. When the active overlay's image fails to load, the failure is
  logged and absorbed: if the photo loads, \<open>compositeImage\<close> succeeds, with the canvas
  it would have produced with no overlay selected and with the overlay's load error
  appended to the log. Only the photo's failure to load is returned to the caller.
\<close>

theorem overlay_failure_is_absorbed:
  assumes "currentOverlay s = Some ov" and "env (asset_src ov) = None"
  shows "(env url = None \<longrightarrow> compositeImage env s url = Inl (ImageLoadFailed url)) \<and>
    (\<forall>photo. env url = Some photo \<and> \<not> img_broken photo \<longrightarrow>
      (\<exists>s' t rest. compositeImage env s url = Inr s' \<and>
         compositeImage env (s\<lparr>currentOverlay := None\<rparr>) url = Inr t \<and>
         ctx s' = ctx t \<and>
         errorLog s' = errorLog s @
           (''PhotoboothController.compositeImage.overlay'', ImageLoadFailed (asset_src ov))
             # rest))"
proof (intro conjI allI impI)
  assume "env url = None"
  then show "compositeImage env s url = Inl (ImageLoadFailed url)"
    by (simp add: compositeImage_def loadImage_def)
next
  fix photo
  assume p: "env url = Some photo \<and> \<not> img_broken photo"
  let ?c0 = "setHeight (img_height photo) (setWidth (img_width photo) (ctx s))"
  obtain c1 where c1: "ctx_drawImage photo 0 0 (img_width photo) (img_height photo) ?c0 = Inr c1"
    using p by (simp add: ctx_drawImage_def)
  let ?e = "(''PhotoboothController.compositeImage.overlay'', ImageLoadFailed (asset_src ov))"
  let ?s1 = "s\<lparr>ctx := c1, errorLog := errorLog s @ [?e]\<rparr>"
  let ?t1 = "s\<lparr>currentOverlay := None, ctx := c1\<rparr>"
  have ov: "drawOverlay env (s\<lparr>ctx := c1\<rparr>) = ?s1"
    using assms by (simp add: drawOverlay_def loadImage_def)
  have nov: "drawOverlay env (s\<lparr>currentOverlay := None, ctx := c1\<rparr>) = ?t1"
    by (simp add: drawOverlay_def)
  have A: "compositeImage env s url = Inr (drawProps (props s) ?s1)"
    using p c1 ov by (simp add: compositeImage_def loadImage_def Let_def)
  have B: "compositeImage env (s\<lparr>currentOverlay := None\<rparr>) url = Inr (drawProps (props s) ?t1)"
    using p c1 nov by (simp add: compositeImage_def loadImage_def Let_def)
  have C: "ctx (drawProps (props s) ?s1) = ctx (drawProps (props s) ?t1)"
    by (rule drawProps_ctx_cong) simp_all
  obtain rest where "errorLog (drawProps (props s) ?s1) = errorLog ?s1 @ rest"
    using drawProps_errorLog by blast
  then have D: "errorLog (drawProps (props s) ?s1) = errorLog s @ ?e # rest"
    by simp
  from A B C D show "\<exists>s' t rest. compositeImage env s url = Inr s' \<and>
         compositeImage env (s\<lparr>currentOverlay := None\<rparr>) url = Inr t \<and>
         ctx s' = ctx t \<and> errorLog s' = errorLog s @ ?e # rest"
    by blast
qed

text \<open>
  With the frame's image missing the photo alone is drawn, as without an overlay; with
  the photo itself missing the call fails.
\<close>

theorem overlay_failure_is_absorbed_witness:
  "currentOverlay framedStage = Some frame \<and> assets (asset_src frame) = None \<and>
   assets ''photo'' = Some photoImage \<and> \<not> img_broken photoImage \<and>
   drawnImages (compositeImage assets framedStage ''photo'') = [photoImage] \<and>
   drawnImages (compositeImage assets (framedStage\<lparr>currentOverlay := None\<rparr>) ''photo'') =
     [photoImage] \<and>
   assets ''lost'' = None \<and>
   compositeImage assets framedStage ''lost'' = Inl (ImageLoadFailed ''lost'')"
proof -
  have a: "currentOverlay framedStage = Some frame"
    by (simp add: framedStage_def)
  have b: "assets (asset_src frame) = None"
    by (simp add: assets_def frame_def)
  have c: "assets ''photo'' = Some photoImage \<and> \<not> img_broken photoImage \<and>
      assets ''lost'' = None"
    by (simp add: assets_def photoImage_def)
  have d: "compositeImage assets (framedStage\<lparr>currentOverlay := None\<rparr>) ''photo'' =
      Inr (framedStage\<lparr>currentOverlay := None,
             ctx := composed 1000 1000 [photoLayer photoImage]\<rparr>)"
    by (simp add: compositeImage_def loadImage_def assets_def framedStage_def stage_def
      photoImage_def Let_def setWidth_def setHeight_def ctx_drawImage_def
      drawOverlay_def composed_def photoLayer_def)
  have e: "drawnImages (compositeImage assets (framedStage\<lparr>currentOverlay := None\<rparr>) ''photo'') =
     [photoImage]"
    by (simp add: d drawnImages_def composed_def photoLayer_def)
  from overlay_failure_is_absorbed
    [where env = assets and s = framedStage and ov = frame and url = "''photo''", OF a b] c
  obtain s' t where "compositeImage assets framedStage ''photo'' = Inr s'"
    and "compositeImage assets (framedStage\<lparr>currentOverlay := None\<rparr>) ''photo'' = Inr t"
    and "ctx s' = ctx t"
    by blast
  then have f: "drawnImages (compositeImage assets framedStage ''photo'') = [photoImage]"
    using e by (simp add: drawnImages_def)
  show ?thesis
    using overlay_failure_is_absorbed
      [where env = assets and s = framedStage and ov = frame and url = "''lost''", OF a b]
      a b c e f
    by simp
qed

text \<open>
  Claim C3 as stated fails: with an overlay active whose image does not load,
  \<open>compositeImage\<close> returns normally, the photo drawn and the error in the log.
\<close>

theorem overlay_failure_not_surfaced:
  "compositeImage assets framedStage ''photo'' =
     Inr (framedStage\<lparr>ctx := composed 1000 1000 [photoLayer photoImage],
            errorLog := [(''PhotoboothController.compositeImage.overlay'',
                          ImageLoadFailed ''frame.png'')]\<rparr>)"
  by (simp add: compositeImage_def loadImage_def assets_def framedStage_def stage_def
      frame_def photoImage_def Let_def setWidth_def setHeight_def ctx_drawImage_def
      drawOverlay_def composed_def photoLayer_def)

subsection \<open>Props whose image fails\<close>

















end
